theory Spec2Isabelle
  imports Main
begin

section \<open>The points controller of ecoleta\<close>

text \<open>
  A shallow embedding of \<^verbatim>\<open>src/server/src/controllers/PointsController.ts\<close>:
  the four request handlers \<^verbatim>\<open>index\<close>, \<^verbatim>\<open>show\<close>, \<^verbatim>\<open>create\<close>
  and \<^verbatim>\<open>update\<close>. Each handler is a function from the state it can touch (the
  committed tables, the upload directory, the transactions it left open) and the request
  to an outcome and the state afterwards. A value that JavaScript may leave
  \<^verbatim>\<open>undefined\<close> (a body field, a query parameter, the uploaded file) and a column
  that may hold NULL is a \<open>string option\<close>.

  What the handlers call and the repository does not define is a parameter of the model:
  \<^verbatim>\<open>Number\<close>, \<^verbatim>\<open>bcrypt.hash\<close> and \<^verbatim>\<open>generateToken\<close> are the
  fields of \<open>env\<close>; whether the database accepts a write (its schema and constraints are
  not in the sources) is decided by the fields of \<open>rules\<close>. The type \<open>'n\<close> is the
  type of JavaScript numbers, as \<^verbatim>\<open>Number\<close> returns them and the item columns hold
  them. \<^verbatim>\<open>bcrypt.hash\<close> draws a salt, so \<open>bcrypt_hash\<close> is the hashing of one
  call: the handlers take the \<open>env\<close> of the call they model. Column comparison in a
  \<^verbatim>\<open>where\<close> is equality of the values.
\<close>

subsection \<open>Tables and state\<close>

text \<open>A row of \<^verbatim>\<open>points\<close>: the columns the handlers write at lines 113-123.\<close>

record point_row =
  id_col :: nat
  image_col :: "string option"
  name :: "string option"
  email :: "string option"
  password :: "string option"
  whatsapp :: "string option"
  latitude :: "string option"
  longitude :: "string option"
  city :: "string option"
  uf :: "string option"

text \<open>A row of \<^verbatim>\<open>point_items\<close> (lines 132-135) and a row of \<^verbatim>\<open>items\<close>.\<close>

record 'n point_item =
  item_id :: 'n
  point_id :: nat

record 'n item =
  item_key :: 'n
  title :: string

record 'n db =
  points :: "point_row list"
  point_items :: "'n point_item list"
  items :: "'n item list"
  next_id :: nat

text \<open>
  \<open>committed\<close> is what every connection reads; \<open>files\<close> are the names in
  \<^verbatim>\<open>uploads/images\<close>; \<open>open_trx\<close> holds the working copy of every transaction that
  was begun and neither committed nor rolled back.
\<close>

record 'n state =
  committed :: "'n db"
  files :: "string set"
  open_trx :: "'n db list"

record 'n env =
  Number :: "string \<Rightarrow> 'n"
  bcrypt_hash :: "string \<Rightarrow> string"
  generateToken :: "nat \<Rightarrow> string"

text \<open>The columns of an \<^verbatim>\<open>update\<close> statement (lines 209-219); None is undefined.\<close>

record point_patch =
  set_name :: "string option"
  set_email :: "string option"
  set_password :: "string option"
  set_whatsapp :: "string option"
  set_latitude :: "string option"
  set_longitude :: "string option"
  set_city :: "string option"
  set_uf :: "string option"
  set_image :: "string option"

record 'n rules =
  point_insert_ok :: "'n db \<Rightarrow> point_row \<Rightarrow> bool"
  point_update_ok :: "'n db \<Rightarrow> nat \<Rightarrow> point_patch \<Rightarrow> bool"
  items_insert_ok :: "'n db \<Rightarrow> 'n point_item list \<Rightarrow> bool"

subsection \<open>Requests and responses\<close>

record index_query =
  q_city :: "string option"
  q_uf :: "string option"
  q_items :: "string option"
  q_ignoreItems :: "string option"
  q_returnItems :: "string option"

record create_request =
  body_name :: "string option"
  body_email :: "string option"
  body_password :: "string option"
  body_whatsapp :: "string option"
  body_latitude :: "string option"
  body_longitude :: "string option"
  body_city :: "string option"
  body_uf :: "string option"
  body_items :: "string option"
  file_filename :: "string option"

record update_request = create_request +
  body_originalemail :: "string option"

text \<open>
  A point as it is written into a JSON body: the columns, and \<^verbatim>\<open>image_url\<close> where
  the handler adds it. A key whose value is undefined is left out of the JSON text; it is
  None here.
\<close>

record point_json = point_row +
  image_url :: "string option"

datatype 'n body =
    Message string
  | ErrorInformation string string string
  | Points "point_json list"
  | PointsWithItems "(point_json \<times> string list) list"
  | PointAndItems point_json "string list"
  | PointAndToken point_json string
  | PointAndItemIds point_json "(string \<times> 'n) list"

datatype failure =
  TypeError | UndefinedBinding | IllegalArguments | EmptyUpdate | QueryError | ENOENT

datatype 'n outcome = Response nat "'n body" | Thrown failure

subsection \<open>JavaScript and query-builder primitives\<close>

definition truthy :: "string option \<Rightarrow> bool" where
  "truthy v = (case v of None \<Rightarrow> False | Some s \<Rightarrow> s \<noteq> [])"

definition String_js :: "string option \<Rightarrow> string" where
  "String_js v = (case v of None \<Rightarrow> ''undefined'' | Some s \<Rightarrow> s)"

text \<open>A template literal prints the NULL of a column as \<^verbatim>\<open>null\<close>.\<close>

definition template :: "string option \<Rightarrow> string" where
  "template v = (case v of None \<Rightarrow> ''null'' | Some s \<Rightarrow> s)"

fun split :: "char \<Rightarrow> string \<Rightarrow> string list" where
  "split sep [] = [[]]"
| "split sep (c # cs) =
     (if c = sep then [] # split sep cs
      else (case split sep cs of [] \<Rightarrow> [[c]] | w # ws \<Rightarrow> (c # w) # ws))"

text \<open>\<^verbatim>\<open>trim\<close> on the white space of ASCII.\<close>

definition is_space :: "char \<Rightarrow> bool" where
  "is_space c = (c \<in> set [CHR '' '', CHR 0x09, CHR 0x0A, CHR 0x0B, CHR 0x0C, CHR 0x0D])"

definition trim :: "string \<Rightarrow> string" where
  "trim s = rev (dropWhile is_space (rev (dropWhile is_space s)))"

text \<open>\<^verbatim>\<open>s.split(',').map(item => Number(item.trim()))\<close>, lines 17-19, 128-130, 230-232.\<close>

definition parse_items :: "'n env \<Rightarrow> string \<Rightarrow> 'n list" where
  "parse_items e s = map (\<lambda>item. Number e (trim item)) (split CHR '','' s)"

definition image_url_of :: "string option \<Rightarrow> string" where
  "image_url_of img = ''http://10.0.0.103:3333/uploads/images/'' @ template img"

text \<open>\<^verbatim>\<open>{...point, image_url: ...}\<close>, lines 34-37 and 70-73.\<close>

definition serialize :: "point_row \<Rightarrow> point_json" where
  "serialize p = point_row.extend p (point_json.fields (Some (image_url_of (image_col p))))"

text \<open>
  \<^verbatim>\<open>knex('items').join('point_items', 'items.id', '=', 'point_items.item_id')
  .where('point_items.point_id', id)\<close>: the pairs of the join, lines 42-45, 75-78, 252-255.
\<close>

definition items_of_point :: "'n db \<Rightarrow> nat \<Rightarrow> ('n item \<times> 'n point_item) list" where
  "items_of_point d pid =
     concat (map (\<lambda>i. map (\<lambda>a. (i, a))
       (filter (\<lambda>a. item_key i = item_id a \<and> point_id a = pid) (point_items d))) (items d))"

definition item_titles :: "'n db \<Rightarrow> nat \<Rightarrow> string list" where
  "item_titles d pid = map (\<lambda>(i, a). title i) (items_of_point d pid)"

subsection \<open>index\<close>

text \<open>
  Lines 13-31: the rows of \<^verbatim>\<open>points\<close> joined to \<^verbatim>\<open>point_items\<close>, restricted
  by \<^verbatim>\<open>whereIn\<close> unless \<^verbatim>\<open>ignoreItems\<close> is truthy, then by city and uf, and made
  distinct.
\<close>

definition index_rows :: "'n env \<Rightarrow> 'n db \<Rightarrow> index_query \<Rightarrow> point_row list" where
  "index_rows e d q =
     (let joined = concat (map (\<lambda>p. map (\<lambda>a. (p, a))
            (filter (\<lambda>a. id_col p = point_id a) (point_items d))) (points d));
          query = (if \<not> truthy (q_ignoreItems q)
                   then (let parsedItems = parse_items e (String_js (q_items q))
                         in filter (\<lambda>(p, a). item_id a \<in> set parsedItems) joined)
                   else joined);
          query = filter (\<lambda>(p, a). city p = Some (String_js (q_city q))) query;
          query = filter (\<lambda>(p, a). uf p = Some (String_js (q_uf q))) query
      in remdups (map fst query))"

definition index :: "'n env \<Rightarrow> 'n state \<Rightarrow> index_query \<Rightarrow> 'n outcome \<times> 'n state" where
  "index e s q =
     (let points = index_rows e (committed s) q;
          serializedPoints = map serialize points
      in if truthy (q_returnItems q)
         then (Response 200 (PointsWithItems
                 (map (\<lambda>point. (point, item_titles (committed s) (id_col point))) serializedPoints)), s)
         else (Response 200 (Points serializedPoints), s))"

subsection \<open>show\<close>

text \<open>
  Lines 59-81. The route parameter is the text of the identifier; the model takes the
  number the database compares the column with.
\<close>

definition "show" :: "'n state \<Rightarrow> nat \<Rightarrow> 'n outcome \<times> 'n state" where
  "show s ident =
     (case find (\<lambda>p. id_col p = ident) (points (committed s)) of
        None \<Rightarrow> (Response 400 (Message ''point not found.''), s)
      | Some point \<Rightarrow>
          (Response 200 (PointAndItems (serialize point) (item_titles (committed s) ident)), s))"

subsection \<open>create\<close>

text \<open>An exception leaves the handler before \<^verbatim>\<open>commit\<close> or \<^verbatim>\<open>rollback\<close> is called.\<close>

definition leave_open :: "'n state \<Rightarrow> 'n db \<Rightarrow> 'n state" where
  "leave_open s trx = s\<lparr>open_trx := open_trx s @ [trx]\<rparr>"

definition email_registered :: string where
  "email_registered = ''EMAIL_ALREADY_REGISTERED''"

definition duplicate_email :: "'n body" where
  "duplicate_email =
     ErrorInformation ''create_point'' email_registered ''Only one point per e-mail permited.''"

text \<open>The rows built at lines 128-136 and 230-238.\<close>

definition pointItems_of :: "'n env \<Rightarrow> string \<Rightarrow> nat \<Rightarrow> 'n point_item list" where
  "pointItems_of e its pointId =
     map (\<lambda>itemId. \<lparr>item_id = itemId, point_id = pointId\<rparr>) (parse_items e its)"

text \<open>
  The object of lines 113-123 as the row the insert stores, under the identifier the
  database assigns to it. The caller has read \<^verbatim>\<open>request.file.filename\<close>.
\<close>

definition point_of :: "create_request \<Rightarrow> string \<Rightarrow> nat \<Rightarrow> point_row" where
  "point_of req passwordHash pointId =
     \<lparr>id_col = pointId, image_col = file_filename req, name = body_name req,
      email = body_email req, password = Some passwordHash, whatsapp = body_whatsapp req,
      latitude = body_latitude req, longitude = body_longitude req,
      city = body_city req, uf = body_uf req\<rparr>"

text \<open>
  Lines 83-152. A \<^verbatim>\<open>where\<close> on an undefined value is refused by the query builder
  (UndefinedBinding); \<^verbatim>\<open>bcrypt.hash\<close> rejects a password that is not a string;
  reading \<^verbatim>\<open>request.file.filename\<close> without an upload and calling
  \<^verbatim>\<open>items.split\<close> on undefined throw TypeError.
\<close>

definition create ::
  "'n env \<Rightarrow> 'n rules \<Rightarrow> 'n state \<Rightarrow> create_request \<Rightarrow> 'n outcome \<times> 'n state" where
  "create e r s req =
     (case body_email req of
        None \<Rightarrow> (Thrown UndefinedBinding, s)
      | Some em \<Rightarrow>
          let hasSameEmail = filter (\<lambda>p. email p = Some em) (points (committed s)) in
          if length hasSameEmail > 0 then (Response 400 duplicate_email, s)
          else
            (case body_password req of
               None \<Rightarrow> (Thrown IllegalArguments, s)
             | Some pw \<Rightarrow>
                 let passwordHash = bcrypt_hash e pw;
                     trx = committed s
                 in
                 (case file_filename req of
                    None \<Rightarrow> (Thrown TypeError, leave_open s trx)
                  | Some filename \<Rightarrow>
                      let pointId = next_id trx;
                          point = point_of req passwordHash pointId
                      in
                      if \<not> point_insert_ok r trx point then (Thrown QueryError, leave_open s trx)
                      else
                        let trx1 = trx\<lparr>points := points trx @ [point], next_id := Suc pointId\<rparr> in
                        (case body_items req of
                           None \<Rightarrow> (Thrown TypeError, leave_open s trx1)
                         | Some its \<Rightarrow>
                             let pointItems = pointItems_of e its pointId in
                             if \<not> items_insert_ok r trx1 pointItems
                             then (Thrown QueryError, leave_open s trx1)
                             else
                               let trx2 = trx1\<lparr>point_items := point_items trx1 @ pointItems\<rparr>;
                                   token = generateToken e pointId
                               in (Response 200
                                     (PointAndToken
                                        (point_row.extend (point\<lparr>password := None\<rparr>)
                                           (point_json.fields None))
                                        token),
                                   s\<lparr>committed := trx2\<rparr>)))))"

subsection \<open>update\<close>

text \<open>
  The query builder leaves a column whose value is undefined out of the
  \<^verbatim>\<open>update\<close> statement, so the column keeps its value.
\<close>

definition or_keep :: "string option \<Rightarrow> string option \<Rightarrow> string option" where
  "or_keep new old = (case new of None \<Rightarrow> old | Some v \<Rightarrow> Some v)"

definition apply_patch :: "point_patch \<Rightarrow> point_row \<Rightarrow> point_row" where
  "apply_patch c p =
     p\<lparr>name := or_keep (set_name c) (name p),
       email := or_keep (set_email c) (email p),
       password := or_keep (set_password c) (password p),
       whatsapp := or_keep (set_whatsapp c) (whatsapp p),
       latitude := or_keep (set_latitude c) (latitude p),
       longitude := or_keep (set_longitude c) (longitude p),
       city := or_keep (set_city c) (city p),
       uf := or_keep (set_uf c) (uf p),
       image_col := or_keep (set_image c) (image_col p)\<rparr>"

definition update_point :: "'n db \<Rightarrow> nat \<Rightarrow> point_patch \<Rightarrow> 'n db" where
  "update_point d pointId c =
     d\<lparr>points := map (\<lambda>p. if id_col p = pointId then apply_patch c p else p) (points d)\<rparr>"

text \<open>
  Lines 202-207. \<^verbatim>\<open>fs.unlinkSync\<close> removes the stored file at once, whatever the
  transaction does later; it throws ENOENT when the file is not there, and
  \<^verbatim>\<open>path.join\<close> throws TypeError on the NULL of the column. The result is the
  upload directory afterwards and the value of \<^verbatim>\<open>image\<close>.
\<close>

definition release_image ::
  "string set \<Rightarrow> string option \<Rightarrow> point_row \<Rightarrow> failure + (string set \<times> string option)" where
  "release_image fs file rawPoint =
     (case file of
        None \<Rightarrow> Inr (fs, None)
      | Some filename \<Rightarrow>
          (case image_col rawPoint of
             None \<Rightarrow> Inl TypeError
           | Some old \<Rightarrow> if old \<in> fs then Inr (fs - {old}, Some filename) else Inl ENOENT))"

text \<open>
  Lines 225-240 on the working copy of the transaction: Inl is the copy at which the
  insert was refused, Inr the copy after the step.
\<close>

definition replace_items ::
  "'n env \<Rightarrow> 'n rules \<Rightarrow> 'n db \<Rightarrow> nat \<Rightarrow> string option \<Rightarrow> 'n db + 'n db" where
  "replace_items e r trx pointId its =
     (case its of
        None \<Rightarrow> Inr trx
      | Some s \<Rightarrow>
          if s \<noteq> [] then
            let trx1 = trx\<lparr>point_items := filter (\<lambda>a. point_id a \<noteq> pointId) (point_items trx)\<rparr>;
                pointItems = pointItems_of e s pointId
            in if items_insert_ok r trx1 pointItems
               then Inr (trx1\<lparr>point_items := point_items trx1 @ pointItems\<rparr>)
               else Inl trx1
          else Inr trx)"

text \<open>Lines 183-187: the new hash, or undefined.\<close>

definition passwordHash_of :: "'n env \<Rightarrow> string option \<Rightarrow> string option" where
  "passwordHash_of e pw =
     (if truthy pw \<and> pw \<noteq> Some [] then map_option (bcrypt_hash e) pw else None)"

text \<open>The object of lines 209-219.\<close>

definition patch_of :: "update_request \<Rightarrow> string option \<Rightarrow> string option \<Rightarrow> point_patch" where
  "patch_of req passwordHash image_new =
     \<lparr>set_name = body_name req, set_email = body_email req, set_password = passwordHash,
      set_whatsapp = body_whatsapp req, set_latitude = body_latitude req,
      set_longitude = body_longitude req, set_city = body_city req, set_uf = body_uf req,
      set_image = image_new\<rparr>"

text \<open>
  The query builder refuses an \<^verbatim>\<open>update\<close> statement in which no column is left
  (\<^verbatim>\<open>Empty .update() call detected\<close>): it throws where the statement of lines
  221-223 is awaited.
\<close>

definition patch_empty :: "point_patch \<Rightarrow> bool" where
  "patch_empty c =
     (set_name c = None \<and> set_email c = None \<and> set_password c = None \<and>
      set_whatsapp c = None \<and> set_latitude c = None \<and> set_longitude c = None \<and>
      set_city c = None \<and> set_uf c = None \<and> set_image c = None)"

text \<open>Lines 169-171: a new e-mail address is supplied and a stored point has it.\<close>

definition email_taken :: "'n db \<Rightarrow> update_request \<Rightarrow> bool" where
  "email_taken d req =
     (truthy (body_email req) \<and> body_email req \<noteq> Some [] \<and>
      body_email req \<noteq> body_originalemail req \<and>
      length (filter (\<lambda>p. email p = body_email req) (points d)) > 0)"

text \<open>
  Lines 154-263. \<^verbatim>\<open>trx.rollback()\<close> at line 195 closes the transaction, so the
  state is as before. An update statement with a column to set is taken or refused by
  the database, as \<open>point_update_ok\<close> says.
\<close>

definition update ::
  "'n env \<Rightarrow> 'n rules \<Rightarrow> 'n state \<Rightarrow> update_request \<Rightarrow> 'n outcome \<times> 'n state" where
  "update e r s req =
     (if email_taken (committed s) req
      then (Response 400 duplicate_email, s)
      else
        let passwordHash = passwordHash_of e (body_password req);
            trx = committed s
        in
        (case body_originalemail req of
           None \<Rightarrow> (Thrown UndefinedBinding, leave_open s trx)
         | Some originalemail \<Rightarrow>
             (case find (\<lambda>p. email p = Some originalemail) (points trx) of
                None \<Rightarrow> (Response 400 (Message ''raw point not found.''), s)
              | Some rawPoint \<Rightarrow>
                  let pointId = id_col rawPoint in
                  (case release_image (files s) (file_filename req) rawPoint of
                     Inl err \<Rightarrow> (Thrown err, leave_open s trx)
                   | Inr (fs, image_new) \<Rightarrow>
                       let s1 = s\<lparr>files := fs\<rparr>;
                           point = patch_of req passwordHash image_new
                       in
                       if patch_empty point then (Thrown EmptyUpdate, leave_open s1 trx)
                       else if \<not> point_update_ok r trx pointId point
                       then (Thrown QueryError, leave_open s1 trx)
                       else
                         (case replace_items e r (update_point trx pointId point) pointId
                                 (body_items req) of
                            Inl trx2 \<Rightarrow> (Thrown QueryError, leave_open s1 trx2)
                          | Inr trx2 \<Rightarrow>
                              (case find (\<lambda>p. id_col p = pointId) (points trx2) of
                                 None \<Rightarrow> (Thrown TypeError, leave_open s1 trx2)
                               | Some outputPoint \<Rightarrow>
                                   let serializedOutputPoint =
                                         point_row.extend (outputPoint\<lparr>password := None\<rparr>)
                                           (point_json.fields
                                              (Some (image_url_of (image_col outputPoint))));
                                       outputItems =
                                         map (\<lambda>(i, a). (title i, item_key i))
                                           (items_of_point trx2 pointId)
                                   in (Response 200
                                         (PointAndItemIds serializedOutputPoint outputItems),
                                       s1\<lparr>committed := trx2\<rparr>)))))))"

subsection \<open>Concrete collaborators and states\<close>

text \<open>
  The theorems below hold for every \<open>env\<close> and every \<open>rules\<close>. To run the handlers
  on concrete requests, \<open>Number_digits\<close> reads a run of decimal digits as JavaScript's
  \<^verbatim>\<open>Number\<close> does (\<open>Some\<close> of the number); any other text, which the examples
  never supply, is None. \<open>accept_all\<close> is a database without constraints of its own,
  \<open>foreign_keys\<close> one whose \<^verbatim>\<open>point_items\<close> rows must reference stored rows.
\<close>

definition Number_digits :: "string \<Rightarrow> nat option" where
  "Number_digits s =
     (if s = [] then None
      else fold (\<lambda>c acc. case acc of None \<Rightarrow> None
                  | Some n \<Rightarrow> if 48 \<le> (of_char c :: nat) \<and> (of_char c :: nat) \<le> 57
                              then Some (10 * n + (of_char c - 48)) else None) s (Some 0))"

definition demo_env :: "nat option env" where
  "demo_env = \<lparr>Number = Number_digits, bcrypt_hash = (\<lambda>pw. ''$2a$10$'' @ pw),
               generateToken = (\<lambda>i. ''token'')\<rparr>"

definition accept_all :: "'n rules" where
  "accept_all = \<lparr>point_insert_ok = (\<lambda>d p. True), point_update_ok = (\<lambda>d i c. True),
                 items_insert_ok = (\<lambda>d rows. True)\<rparr>"

definition foreign_keys :: "'n rules" where
  "foreign_keys = \<lparr>point_insert_ok = (\<lambda>d p. True), point_update_ok = (\<lambda>d i c. True),
                   items_insert_ok = (\<lambda>d rows. list_all (\<lambda>a. item_id a \<in> set (map item_key (items d)) \<and>
                                                       point_id a \<in> set (map id_col (points d))) rows)\<rparr>"

definition point1 :: point_row where
  "point1 = \<lparr>id_col = 1, image_col = Some ''old.png'', name = Some ''Eco'',
             email = Some ''a@x.com'', password = Some ''$2a$10$secret'',
             whatsapp = Some ''11999999999'', latitude = Some ''-16.3'',
             longitude = Some ''-48.9'', city = Some ''Rio'', uf = Some ''RJ''\<rparr>"

definition demo_items :: "nat option item list" where
  "demo_items = [\<lparr>item_key = Some 1, title = ''Lampadas''\<rparr>,
                 \<lparr>item_key = Some 2, title = ''Pilhas''\<rparr>,
                 \<lparr>item_key = Some 3, title = ''Papeis''\<rparr>,
                 \<lparr>item_key = Some 4, title = ''Oleo''\<rparr>]"

definition demo_db :: "nat option db" where
  "demo_db = \<lparr>points = [point1],
              point_items = [\<lparr>item_id = Some 1, point_id = 1\<rparr>,
                             \<lparr>item_id = Some 2, point_id = 1\<rparr>,
                             \<lparr>item_id = Some 3, point_id = 1\<rparr>],
              items = demo_items, next_id = 2\<rparr>"

definition demo_state :: "nat option state" where
  "demo_state = \<lparr>committed = demo_db, files = {''old.png'', ''new.png''}, open_trx = []\<rparr>"

definition itemless_state :: "nat option state" where
  "itemless_state = demo_state\<lparr>committed := demo_db\<lparr>point_items := []\<rparr>\<rparr>"

definition rio_all :: index_query where
  "rio_all = \<lparr>q_city = Some ''Rio'', q_uf = Some ''RJ'', q_items = None,
              q_ignoreItems = Some ''true'', q_returnItems = None\<rparr>"

text \<open>A registration form for a new e-mail address, with an upload and two items.\<close>

definition new_point :: create_request where
  "new_point = \<lparr>body_name = Some ''Verde'', body_email = Some ''b@x.com'',
                body_password = Some ''pw'', body_whatsapp = Some ''11888888888'',
                body_latitude = Some ''-22.9'', body_longitude = Some ''-43.2'',
                body_city = Some ''Rio'', body_uf = Some ''RJ'', body_items = Some ''1,2'',
                file_filename = Some ''new.png''\<rparr>"

text \<open>
  An update form for the stored point in which every field is left out; the examples set
  the fields they need.
\<close>

definition no_change :: update_request where
  "no_change = \<lparr>body_name = None, body_email = None, body_password = None,
                body_whatsapp = None, body_latitude = None, body_longitude = None,
                body_city = None, body_uf = None, body_items = None, file_filename = None,
                body_originalemail = Some ''a@x.com''\<rparr>"

text \<open>A second stored point, registered under another address.\<close>

definition point2 :: point_row where
  "point2 = \<lparr>id_col = 2, image_col = Some ''other.png'', name = Some ''Azul'',
             email = Some ''c@x.com'', password = Some ''$2a$10$other'',
             whatsapp = Some ''11777777777'', latitude = Some ''-23.5'',
             longitude = Some ''-46.6'', city = Some ''Sampa'', uf = Some ''SP''\<rparr>"

definition two_points :: "nat option state" where
  "two_points = demo_state\<lparr>committed := demo_db\<lparr>points := [point1, point2], next_id := 3\<rparr>\<rparr>"

lemmas demo_defs = demo_env_def Number_digits_def accept_all_def foreign_keys_def point1_def
  demo_items_def demo_db_def demo_state_def itemless_state_def rio_all_def new_point_def
  no_change_def point2_def two_points_def

subsection \<open>Auxiliary facts\<close>

lemma split_nonempty: "split sep s \<noteq> []"
  by (induction s) (auto split: list.splits)


lemma index_rows_set:
  "set (index_rows e d q) =
     {p \<in> set (points d).
        city p = Some (String_js (q_city q)) \<and> uf p = Some (String_js (q_uf q)) \<and>
        (\<exists>a \<in> set (point_items d). point_id a = id_col p \<and>
           (truthy (q_ignoreItems q) \<or>
            item_id a \<in> set (parse_items e (String_js (q_items q)))))}"
  unfolding index_rows_def Let_def by (auto simp: image_iff) metis+

lemma index_response:
  "index e s q =
     (Response 200
        (if truthy (q_returnItems q)
         then PointsWithItems (map (\<lambda>point. (point, item_titles (committed s) (id_col point)))
                (map serialize (index_rows e (committed s) q)))
         else Points (map serialize (index_rows e (committed s) q))), s)"
  by (simp add: index_def Let_def)

text \<open>
  What \<open>create\<close> can do: commit the new row together with its item rows, or commit
  nothing and leave the upload directory alone.
\<close>

lemma create_cases:
  assumes "create e r s req = (out, s')"
  shows "(\<exists>its pw. out = Response 200 (PointAndToken
              (point_row.extend
                 ((point_of req (bcrypt_hash e pw) (next_id (committed s)))\<lparr>password := None\<rparr>)
                 (point_json.fields None))
              (generateToken e (next_id (committed s)))) \<and>
            body_items req = Some its \<and> body_password req = Some pw \<and>
            s' = s\<lparr>committed := (committed s)
                   \<lparr>points := points (committed s) @
                        [point_of req (bcrypt_hash e pw) (next_id (committed s))],
                     next_id := Suc (next_id (committed s)),
                     point_items := point_items (committed s) @
                        pointItems_of e its (next_id (committed s))\<rparr>\<rparr>) \<or>
         ((\<forall>b. out \<noteq> Response 200 b) \<and> committed s' = committed s \<and> files s' = files s)"
  using assms
  by (auto simp: create_def Let_def leave_open_def split: option.splits if_splits)

lemma id_col_point_of: "id_col (point_of req h i) = i"
  by (simp add: point_of_def)

lemma pointItems_of_nonempty: "pointItems_of e its i \<noteq> []"
  by (simp add: pointItems_of_def parse_items_def split_nonempty)

lemmas run_defs = create_def update_def point_of_def patch_of_def passwordHash_of_def
  patch_empty_def email_taken_def
  leave_open_def pointItems_of_def parse_items_def trim_def is_space_def release_image_def
  replace_items_def update_point_def apply_patch_def or_keep_def truthy_def String_js_def
  duplicate_email_def email_registered_def Let_def

text \<open>The point in the answer of \<open>create\<close> carries no password (line 148).\<close>

lemma create_hides_password:
  assumes "create e r s req = (Response n (PointAndToken pj tok), s')"
  shows "password pj = None"
  using assms
  by (auto simp: create_def Let_def duplicate_email_def point_row.extend_def
      point_json.fields_def split: option.splits if_splits)

section \<open>The claims\<close>

subsection \<open>Listing\<close>

text \<open>
  Claim C9, as the handler has it. The list call answers 200 with the serialized rows of
  \<open>index_rows\<close> (each with its item titles when \<^verbatim>\<open>returnItems\<close> is truthy) and
  leaves the state alone. Those rows are exactly the stored points whose city and uf
  equal the filter values and that have an association row which, unless
  \<^verbatim>\<open>ignoreItems\<close> is truthy, carries one of the supplied item identifiers; no row is
  listed twice. The claim as written leaves out that the point needs an association row
  also when \<^verbatim>\<open>ignoreItems\<close> is truthy.
\<close>

theorem index_exact:
  "index e s q =
     (Response 200
        (if truthy (q_returnItems q)
         then PointsWithItems (map (\<lambda>point. (point, item_titles (committed s) (id_col point)))
                (map serialize (index_rows e (committed s) q)))
         else Points (map serialize (index_rows e (committed s) q))), s) \<and>
   set (index_rows e (committed s) q) =
     {p \<in> set (points (committed s)).
        city p = Some (String_js (q_city q)) \<and> uf p = Some (String_js (q_uf q)) \<and>
        (\<exists>a \<in> set (point_items (committed s)). point_id a = id_col p \<and>
           (truthy (q_ignoreItems q) \<or>
            item_id a \<in> set (parse_items e (String_js (q_items q)))))} \<and>
   distinct (index_rows e (committed s) q)"
proof -
  have "distinct (index_rows e (committed s) q)"
    by (simp add: index_rows_def Let_def)
  then show ?thesis
    using index_rows_set [of e "committed s" q] index_response [of e s q] by simp
qed

text \<open>
  The stored point of \<open>demo_state\<close> accepts items 1, 2 and 3: it is listed for
  \<^verbatim>\<open>items=1,9\<close> and not for \<^verbatim>\<open>items=9\<close>.
\<close>

theorem index_exact_witness:
  "index demo_env demo_state (rio_all\<lparr>q_ignoreItems := None, q_items := Some ''1,9''\<rparr>) =
     (Response 200 (Points [serialize point1]), demo_state) \<and>
   index demo_env demo_state (rio_all\<lparr>q_ignoreItems := None, q_items := Some ''9''\<rparr>) =
     (Response 200 (Points []), demo_state)"
proof -
  have "index_rows demo_env demo_db (rio_all\<lparr>q_ignoreItems := None, q_items := Some ''1,9''\<rparr>)
          = [point1]"
    by (simp add: demo_defs index_rows_def run_defs)
  moreover have "index_rows demo_env demo_db (rio_all\<lparr>q_ignoreItems := None, q_items := Some ''9''\<rparr>)
          = []"
    by (simp add: demo_defs index_rows_def run_defs)
  moreover have "committed demo_state = demo_db" "\<not> truthy (q_returnItems rio_all)"
    by (simp_all add: demo_state_def rio_all_def truthy_def)
  ultimately show ?thesis
    using index_exact [of demo_env demo_state "rio_all\<lparr>q_ignoreItems := None, q_items := Some ''1,9''\<rparr>"]
      index_exact [of demo_env demo_state "rio_all\<lparr>q_ignoreItems := None, q_items := Some ''9''\<rparr>"]
    by simp
qed

text \<open>
  Claim C9 as written fails: in \<open>itemless_state\<close> the stored point matches the city and
  uf of the query and \<^verbatim>\<open>ignoreItems\<close> is truthy, so the claim lists it; the handler
  answers the empty list.
\<close>

theorem index_all_counterexample:
  "point1 \<in> set (points (committed itemless_state)) \<and>
   city point1 = Some (String_js (q_city rio_all)) \<and>
   uf point1 = Some (String_js (q_uf rio_all)) \<and>
   truthy (q_ignoreItems rio_all) \<and>
   index demo_env itemless_state rio_all = (Response 200 (Points []), itemless_state)"
  by (simp add: demo_defs index_def index_rows_def truthy_def String_js_def Let_def)

text \<open>
  Claim C10. Whatever the query, also with \<^verbatim>\<open>ignoreItems\<close> truthy, a stored point
  without any row in \<^verbatim>\<open>point_items\<close> is not among the rows the list call
  serializes into its answer: the query joins the two tables before it filters.
\<close>

theorem index_hides_itemless:
  assumes "\<forall>a \<in> set (point_items (committed s)). point_id a \<noteq> id_col p"
  shows "p \<notin> set (index_rows e (committed s) q) \<and>
         index e s q =
           (Response 200
              (if truthy (q_returnItems q)
               then PointsWithItems (map (\<lambda>point. (point, item_titles (committed s) (id_col point)))
                      (map serialize (index_rows e (committed s) q)))
               else Points (map serialize (index_rows e (committed s) q))), s)"
  using assms index_rows_set [of e "committed s" q] index_response [of e s q] by auto

theorem index_hides_itemless_witness:
  "point_items (committed itemless_state) = [] \<and>
   point1 \<in> set (points (committed itemless_state)) \<and>
   truthy (q_ignoreItems rio_all) \<and>
   point1 \<notin> set (index_rows demo_env (committed itemless_state) rio_all)"
  using index_hides_itemless [of itemless_state point1 demo_env rio_all]
  by (simp add: demo_defs truthy_def)

subsection \<open>The password hash in responses\<close>

text \<open>
  Claim C1 does not hold for show and list. \<open>create\<close> and \<open>update\<close> set
  \<^verbatim>\<open>password: undefined\<close> in the point they answer with; \<open>show\<close> and \<open>index\<close>
  spread the stored row as it is. On \<open>demo_state\<close> both answer with the stored hash, and
  changing nothing but the hash of the stored point changes the answer of \<open>show\<close>.
\<close>

theorem show_and_index_expose_password:
  "show demo_state 1 =
     (Response 200 (PointAndItems (serialize point1) [''Lampadas'', ''Pilhas'', ''Papeis'']),
      demo_state) \<and>
   index demo_env demo_state rio_all = (Response 200 (Points [serialize point1]), demo_state) \<and>
   password (serialize point1) = Some ''$2a$10$secret'' \<and>
   fst (show (demo_state\<lparr>committed := demo_db\<lparr>points := [point1\<lparr>password := Some ''other''\<rparr>]\<rparr>\<rparr>) 1)
     \<noteq> fst (show demo_state 1)"
  by (simp add: demo_defs show_def index_def index_rows_def item_titles_def items_of_point_def
      serialize_def truthy_def String_js_def Let_def point_row.extend_def)

subsection \<open>Registration\<close>

text \<open>
  Claim C3. A create call whose e-mail address is the address of a stored point answers
  400 with the code EMAIL_ALREADY_REGISTERED, and the state it returns is the state it
  was given: no row is inserted, no transaction is begun, no file is touched.
\<close>

theorem create_duplicate_email:
  assumes "body_email req = Some em"
    and "\<exists>p \<in> set (points (committed s)). email p = Some em"
  shows "create e r s req =
           (Response 400 (ErrorInformation ''create_point'' ''EMAIL_ALREADY_REGISTERED''
              ''Only one point per e-mail permited.''), s)"
proof -
  from assms(2) have "filter (\<lambda>p. email p = Some em) (points (committed s)) \<noteq> []"
    by (auto simp: filter_empty_conv)
  with assms(1) show ?thesis
    by (simp add: create_def duplicate_email_def email_registered_def)
qed

theorem create_duplicate_email_witness:
  "body_email (new_point\<lparr>body_email := Some ''a@x.com''\<rparr>) = Some ''a@x.com'' \<and>
   email point1 = Some ''a@x.com'' \<and> point1 \<in> set (points (committed demo_state)) \<and>
   create demo_env accept_all demo_state (new_point\<lparr>body_email := Some ''a@x.com''\<rparr>) =
     (Response 400 (ErrorInformation ''create_point'' ''EMAIL_ALREADY_REGISTERED''
        ''Only one point per e-mail permited.''), demo_state)"
  using create_duplicate_email [of "new_point\<lparr>body_email := Some ''a@x.com''\<rparr>" "''a@x.com''"
      demo_state demo_env accept_all]
  by (simp add: demo_defs)

text \<open>
  Claim C4, as the handler has it. Both inserts of a create call are made on one
  transaction, which is committed only after both were accepted. A call that answers 200
  has committed the new point row together with its item rows, of which there is at
  least one; every other call has committed nothing, so neither a point row nor an item
  row of it is in the committed tables. No call touches the upload directory.
\<close>

theorem create_commits_all_or_nothing:
  assumes "create e r s req = (out, s')"
  shows "files s' = files s \<and>
         (if \<exists>b. out = Response 200 b
          then \<exists>its point.
                 body_items req = Some its \<and>
                 points (committed s') = points (committed s) @ [point] \<and>
                 pointItems_of e its (id_col point) \<noteq> [] \<and>
                 point_items (committed s') =
                   point_items (committed s) @ pointItems_of e its (id_col point) \<and>
                 open_trx s' = open_trx s
          else committed s' = committed s)"
proof -
  from create_cases [OF assms] show ?thesis
  proof
    assume "\<exists>its pw. out = Response 200 (PointAndToken
              (point_row.extend
                 ((point_of req (bcrypt_hash e pw) (next_id (committed s)))\<lparr>password := None\<rparr>)
                 (point_json.fields None))
              (generateToken e (next_id (committed s)))) \<and>
            body_items req = Some its \<and> body_password req = Some pw \<and>
            s' = s\<lparr>committed := (committed s)
                   \<lparr>points := points (committed s) @
                        [point_of req (bcrypt_hash e pw) (next_id (committed s))],
                     next_id := Suc (next_id (committed s)),
                     point_items := point_items (committed s) @
                        pointItems_of e its (next_id (committed s))\<rparr>\<rparr>"
    then obtain its pw where ok: "\<exists>b. out = Response 200 b" "body_items req = Some its"
      and s': "s' = s\<lparr>committed := (committed s)
                   \<lparr>points := points (committed s) @
                        [point_of req (bcrypt_hash e pw) (next_id (committed s))],
                     next_id := Suc (next_id (committed s)),
                     point_items := point_items (committed s) @
                        pointItems_of e its (next_id (committed s))\<rparr>\<rparr>"
      by blast
    let ?point = "point_of req (bcrypt_hash e pw) (next_id (committed s))"
    have "files s' = files s" using s' by simp
    moreover have "\<exists>its point.
                 body_items req = Some its \<and>
                 points (committed s') = points (committed s) @ [point] \<and>
                 pointItems_of e its (id_col point) \<noteq> [] \<and>
                 point_items (committed s') =
                   point_items (committed s) @ pointItems_of e its (id_col point) \<and>
                 open_trx s' = open_trx s"
      using ok(2) s' pointItems_of_nonempty [of e its] id_col_point_of
      by (intro exI [of _ its] exI [of _ ?point]) simp
    ultimately show ?thesis using ok(1) by simp
  next
    assume "(\<forall>b. out \<noteq> Response 200 b) \<and> committed s' = committed s \<and> files s' = files s"
    then show ?thesis by simp
  qed
qed

theorem create_commits_all_or_nothing_witness:
  "create demo_env accept_all demo_state new_point =
     (Response 200 (PointAndToken
        (point_row.extend ((point_of new_point ''$2a$10$pw'' 2)\<lparr>password := None\<rparr>)
           (point_json.fields None)) ''token''),
      demo_state\<lparr>committed := demo_db
        \<lparr>points := [point1, point_of new_point ''$2a$10$pw'' 2], next_id := 3,
          point_items := point_items demo_db @
            [\<lparr>item_id = Some 1, point_id = 2\<rparr>, \<lparr>item_id = Some 2, point_id = 2\<rparr>]\<rparr>\<rparr>) \<and>
   files (snd (create demo_env accept_all demo_state new_point)) = files demo_state"
  using create_commits_all_or_nothing [of demo_env accept_all demo_state new_point
      "fst (create demo_env accept_all demo_state new_point)"
      "snd (create demo_env accept_all demo_state new_point)"]
  by (simp add: demo_defs run_defs)

text \<open>
  Claim C4 as written fails where it says that the unit of work rolls back: the handler
  never calls \<^verbatim>\<open>rollback\<close>. When the form has no items the call throws after the
  point row was inserted; when the database refuses the item rows (item 9 is not in
  \<^verbatim>\<open>items\<close>) the insert throws. In both runs the transaction, holding the point row
  without item rows, is left open.
\<close>

theorem create_failure_leaves_transaction_open:
  "create demo_env accept_all demo_state (new_point\<lparr>body_items := None\<rparr>) =
     (Thrown TypeError,
      demo_state\<lparr>open_trx :=
        [demo_db\<lparr>points := [point1, point_of new_point ''$2a$10$pw'' 2], next_id := 3\<rparr>]\<rparr>) \<and>
   create demo_env foreign_keys demo_state (new_point\<lparr>body_items := Some ''9''\<rparr>) =
     (Thrown QueryError,
      demo_state\<lparr>open_trx :=
        [demo_db\<lparr>points := [point1, point_of new_point ''$2a$10$pw'' 2], next_id := 3\<rparr>]\<rparr>) \<and>
   open_trx demo_state = []"
  by (simp add: demo_defs run_defs)

text \<open>
  Claim C5, as the handler has it. A create call that answers 200 has appended the new
  point row and, after the rows that were there, one item row for every element of the
  list parsed from \<^verbatim>\<open>items\<close>, in its order, all carrying the identifier of the new
  point. Nothing removes an element that occurs twice.
\<close>

theorem create_one_row_per_parsed_item:
  assumes "create e r s req = (Response 200 b, s')"
  shows "\<exists>its point.
           body_items req = Some its \<and>
           points (committed s') = points (committed s) @ [point] \<and>
           point_items (committed s') =
             point_items (committed s) @
             map (\<lambda>itemId. \<lparr>item_id = itemId, point_id = id_col point\<rparr>) (parse_items e its)"
proof -
  from create_cases [OF assms] obtain its pw where its: "body_items req = Some its"
    and s': "s' = s\<lparr>committed := (committed s)
                   \<lparr>points := points (committed s) @
                        [point_of req (bcrypt_hash e pw) (next_id (committed s))],
                     next_id := Suc (next_id (committed s)),
                     point_items := point_items (committed s) @
                        pointItems_of e its (next_id (committed s))\<rparr>\<rparr>"
    by blast
  let ?point = "point_of req (bcrypt_hash e pw) (next_id (committed s))"
  show ?thesis
    using its s' id_col_point_of [of req "bcrypt_hash e pw" "next_id (committed s)"]
    by (intro exI [of _ its] exI [of _ ?point]) (simp add: pointItems_of_def)
qed

theorem create_one_row_per_parsed_item_witness:
  "\<exists>point. points (committed (snd (create demo_env accept_all demo_state new_point))) =
       points (committed demo_state) @ [point] \<and>
     point_items (committed (snd (create demo_env accept_all demo_state new_point))) =
       point_items (committed demo_state) @
       map (\<lambda>itemId. \<lparr>item_id = itemId, point_id = id_col point\<rparr>) [Some 1, Some 2]"
proof -
  have run: "create demo_env accept_all demo_state new_point =
     (Response 200 (PointAndToken
        (point_row.extend ((point_of new_point ''$2a$10$pw'' 2)\<lparr>password := None\<rparr>)
           (point_json.fields None)) ''token''),
      snd (create demo_env accept_all demo_state new_point))"
    by (simp add: demo_defs run_defs)
  have parsed: "parse_items demo_env ''1,2'' = [Some 1, Some 2]"
    by (simp add: demo_defs parse_items_def trim_def is_space_def)
  have its: "body_items new_point = Some ''1,2''"
    by (simp add: new_point_def)
  from create_one_row_per_parsed_item [OF run] its parsed show ?thesis
    by auto
qed

text \<open>
  Claim C5 as written fails: registered with \<^verbatim>\<open>items = "1,1"\<close>, the new point gets
  two item rows for item 1.
\<close>

theorem create_duplicate_items_counterexample:
  "fst (create demo_env accept_all demo_state (new_point\<lparr>body_items := Some ''1,1''\<rparr>)) =
     Response 200 (PointAndToken
        (point_row.extend ((point_of new_point ''$2a$10$pw'' 2)\<lparr>password := None\<rparr>)
           (point_json.fields None)) ''token'') \<and>
   point_items (committed (snd (create demo_env accept_all demo_state
       (new_point\<lparr>body_items := Some ''1,1''\<rparr>)))) =
     point_items demo_db @
       [\<lparr>item_id = Some 1, point_id = 2\<rparr>, \<lparr>item_id = Some 1, point_id = 2\<rparr>]"
  by (simp add: demo_defs run_defs)

text \<open>
  Claim C8, as the handler has it. A create call without an uploaded file commits
  nothing and leaves the upload directory alone, and it never answers 200. It has no
  error of its own for the missing upload: a missing or registered e-mail address and a
  missing password stop the call as they stop any other; otherwise the call ends in the
  TypeError thrown where \<^verbatim>\<open>request.file.filename\<close> is read.
\<close>

theorem create_without_file:
  assumes "file_filename req = None"
  shows "committed (snd (create e r s req)) = committed s \<and>
         files (snd (create e r s req)) = files s \<and>
         fst (create e r s req) =
           (case body_email req of
              None \<Rightarrow> Thrown UndefinedBinding
            | Some em \<Rightarrow>
                if list_ex (\<lambda>p. email p = Some em) (points (committed s))
                then Response 400 duplicate_email
                else (case body_password req of
                        None \<Rightarrow> Thrown IllegalArguments
                      | Some pw \<Rightarrow> Thrown TypeError))"
  using assms
  by (auto simp: create_def Let_def leave_open_def list_ex_iff filter_empty_conv
      split: option.splits)

theorem create_without_file_witness:
  "file_filename (new_point\<lparr>file_filename := None\<rparr>) = None \<and>
   committed (snd (create demo_env accept_all demo_state (new_point\<lparr>file_filename := None\<rparr>)))
     = committed demo_state \<and>
   fst (create demo_env accept_all demo_state (new_point\<lparr>file_filename := None\<rparr>))
     = Thrown TypeError"
  using create_without_file [of "new_point\<lparr>file_filename := None\<rparr>" demo_env accept_all
      demo_state]
  by (simp add: demo_defs)

text \<open>
  Claim C8 as written fails: the registration of a new address without an upload ends
  in an uncaught TypeError, not in a response that names the missing image, and leaves
  its transaction open.
\<close>

theorem create_without_file_counterexample:
  "create demo_env accept_all demo_state (new_point\<lparr>file_filename := None\<rparr>) =
     (Thrown TypeError, demo_state\<lparr>open_trx := [demo_db]\<rparr>)"
  by (simp add: demo_defs run_defs)

subsection \<open>Update\<close>

text \<open>
  What \<open>update\<close> can do: answer 200 after every step of its transaction went through
  and was committed, or commit nothing.
\<close>

lemma update_cases:
  assumes "update e r s req = (out, s')"
  shows "(\<exists>originalemail rawPoint fs image_new outputPoint.
            body_originalemail req = Some originalemail \<and>
            find (\<lambda>p. email p = Some originalemail) (points (committed s)) = Some rawPoint \<and>
            release_image (files s) (file_filename req) rawPoint = Inr (fs, image_new) \<and>
            replace_items e r
              (update_point (committed s) (id_col rawPoint)
                 (patch_of req (passwordHash_of e (body_password req)) image_new))
              (id_col rawPoint) (body_items req) = Inr (committed s') \<and>
            find (\<lambda>p. id_col p = id_col rawPoint) (points (committed s')) = Some outputPoint \<and>
            out = Response 200 (PointAndItemIds
                    (point_row.extend (outputPoint\<lparr>password := None\<rparr>)
                       (point_json.fields (Some (image_url_of (image_col outputPoint)))))
                    (map (\<lambda>(i, a). (title i, item_key i))
                       (items_of_point (committed s') (id_col rawPoint)))) \<and>
            files s' = fs \<and> open_trx s' = open_trx s) \<or>
         ((\<forall>b. out \<noteq> Response 200 b) \<and> committed s' = committed s)"
  using assms
  by (auto simp: update_def Let_def leave_open_def split: option.splits if_splits sum.splits)
    blast+

lemma update_release_failed:
  assumes "update e r s req = (out, s')"
    and "body_originalemail req = Some originalemail"
    and "find (\<lambda>p. email p = Some originalemail) (points (committed s)) = Some rawPoint"
    and "release_image (files s) (file_filename req) rawPoint = Inl err"
  shows "(out = Response 400 duplicate_email \<or> out = Thrown err) \<and>
         committed s' = committed s \<and> files s' = files s"
  using assms
  by (auto simp: update_def Let_def leave_open_def split: if_splits)

lemma replace_items_points:
  "replace_items e r t i its = Inr t' \<Longrightarrow> points t' = points t"
  by (auto simp: replace_items_def Let_def split: option.splits if_splits)

lemma replace_items_rows:
  "replace_items e r t i its = Inr t' \<Longrightarrow>
     point_items t' =
       (case its of
          None \<Rightarrow> point_items t
        | Some s \<Rightarrow> if s = [] then point_items t
                    else filter (\<lambda>a. point_id a \<noteq> i) (point_items t) @ pointItems_of e s i)"
  by (auto simp: replace_items_def Let_def split: option.splits if_splits)

lemma point_items_update_point: "point_items (update_point d i c) = point_items d"
  by (simp add: update_point_def)

lemma points_update_point:
  "points (update_point d i c) = map (\<lambda>p. if id_col p = i then apply_patch c p else p) (points d)"
  by (simp add: update_point_def)

lemma id_col_apply_patch: "id_col (apply_patch c p) = id_col p"
  by (simp add: apply_patch_def)


lemma image_col_apply_patch: "image_col (apply_patch c p) = or_keep (set_image c) (image_col p)"
  by (simp add: apply_patch_def)

lemma pointItems_of_point_id: "a \<in> set (pointItems_of e s i) \<Longrightarrow> point_id a = i"
  by (auto simp: pointItems_of_def)

lemma item_id_pointItems_of: "item_id ` set (pointItems_of e s i) = set (parse_items e s)"
  by (force simp: pointItems_of_def image_iff)


lemma set_image_patch_of: "set_image (patch_of req h img) = img"
  by (simp add: patch_of_def)

lemma update_points:
  assumes "update e r s req = (Response 200 b, s')"
  shows "\<exists>rawPoint fs image_new.
           find (\<lambda>p. email p = body_originalemail req) (points (committed s)) = Some rawPoint \<and>
           release_image (files s) (file_filename req) rawPoint = Inr (fs, image_new) \<and>
           files s' = fs \<and>
           points (committed s') =
             map (\<lambda>p. if id_col p = id_col rawPoint
                       then apply_patch (patch_of req (passwordHash_of e (body_password req))
                              image_new) p
                       else p) (points (committed s))"
proof -
  from update_cases [OF assms] obtain originalemail rawPoint fs image_new
    where oe: "body_originalemail req = Some originalemail"
      and raw: "find (\<lambda>p. email p = Some originalemail) (points (committed s)) = Some rawPoint"
      and rel: "release_image (files s) (file_filename req) rawPoint = Inr (fs, image_new)"
      and rep: "replace_items e r
              (update_point (committed s) (id_col rawPoint)
                 (patch_of req (passwordHash_of e (body_password req)) image_new))
              (id_col rawPoint) (body_items req) = Inr (committed s')"
      and fs: "files s' = fs"
    by blast
  from replace_items_points [OF rep] oe raw rel fs show ?thesis
    by (simp add: points_update_point)
qed

text \<open>The point in the answer of \<open>update\<close> carries no password (line 248).\<close>

lemma update_hides_password:
  assumes "update e r s req = (Response n (PointAndItemIds pj its), s')"
  shows "password pj = None"
  using assms
  by (auto simp: update_def Let_def duplicate_email_def point_row.extend_def
      point_json.fields_def split: option.splits if_splits sum.splits)

text \<open>
  Once the stored file is released, the upload directory stays as the release left it,
  whatever the later steps of the call do.
\<close>

lemma update_files:
  assumes "update e r s req = (out, s')"
    and "\<not> email_taken (committed s) req"
    and "body_originalemail req = Some originalemail"
    and "find (\<lambda>p. email p = Some originalemail) (points (committed s)) = Some rawPoint"
    and "release_image (files s) (file_filename req) rawPoint = Inr (fs, image_new)"
  shows "files s' = fs"
  using assms
  by (auto simp: update_def Let_def leave_open_def split: option.splits if_splits sum.splits)

text \<open>An update call in which no column is set does not get past lines 221-223.\<close>

lemma update_without_column:
  assumes "update e r s req = (out, s')"
    and "patch_empty (patch_of req (passwordHash_of e (body_password req)) (file_filename req))"
  shows "(\<forall>b. out \<noteq> Response 200 b) \<and> committed s' = committed s \<and> files s' = files s"
proof -
  from assms(2) have nofile: "file_filename req = None"
    by (simp add: patch_empty_def patch_of_def)
  have rel: "release_image fs None p = Inr (fs, None)" for fs p
    by (simp add: release_image_def)
  from assms show ?thesis
    by (auto simp: update_def Let_def nofile rel leave_open_def split: option.splits if_splits)
qed

text \<open>
  What an update call that answers 200 has done to \<^verbatim>\<open>point_items\<close>: it has found the
  stored point of the original e-mail address; if \<^verbatim>\<open>items\<close> was supplied and not
  empty, the item identifiers of that point's rows are afterwards exactly the identifiers
  parsed from it, and the rows of every other point are as before; if it was omitted or
  empty, the table is unchanged. A call that does not answer 200 leaves the table
  unchanged.
\<close>

theorem update_replaces_items:
  assumes "update e r s req = (out, s')"
  shows "if \<exists>b. out = Response 200 b
         then \<exists>rawPoint.
                find (\<lambda>p. email p = body_originalemail req) (points (committed s)) = Some rawPoint \<and>
                (case body_items req of
                   None \<Rightarrow> point_items (committed s') = point_items (committed s)
                 | Some its \<Rightarrow>
                     if its = [] then point_items (committed s') = point_items (committed s)
                     else item_id ` {a \<in> set (point_items (committed s')).
                                      point_id a = id_col rawPoint} = set (parse_items e its) \<and>
                          filter (\<lambda>a. point_id a \<noteq> id_col rawPoint) (point_items (committed s')) =
                          filter (\<lambda>a. point_id a \<noteq> id_col rawPoint) (point_items (committed s)))
         else point_items (committed s') = point_items (committed s)"
proof (cases "\<exists>b. out = Response 200 b")
  case False
  with update_cases [OF assms] show ?thesis by auto
next
  case True
  with update_cases [OF assms] obtain originalemail rawPoint image_new
    where oe: "body_originalemail req = Some originalemail"
      and raw: "find (\<lambda>p. email p = Some originalemail) (points (committed s)) = Some rawPoint"
      and rep: "replace_items e r
              (update_point (committed s) (id_col rawPoint)
                 (patch_of req (passwordHash_of e (body_password req)) image_new))
              (id_col rawPoint) (body_items req) = Inr (committed s')"
    by blast
  let ?i = "id_col rawPoint"
  have rows: "point_items (committed s') =
       (case body_items req of
          None \<Rightarrow> point_items (committed s)
        | Some its \<Rightarrow> if its = [] then point_items (committed s)
                    else filter (\<lambda>a. point_id a \<noteq> ?i) (point_items (committed s)) @
                         pointItems_of e its ?i)"
    using replace_items_rows [OF rep] by (simp add: point_items_update_point split: option.splits)
  have items: "case body_items req of
                   None \<Rightarrow> point_items (committed s') = point_items (committed s)
                 | Some its \<Rightarrow>
                     if its = [] then point_items (committed s') = point_items (committed s)
                     else item_id ` {a \<in> set (point_items (committed s')).
                                      point_id a = ?i} = set (parse_items e its) \<and>
                          filter (\<lambda>a. point_id a \<noteq> ?i) (point_items (committed s')) =
                          filter (\<lambda>a. point_id a \<noteq> ?i) (point_items (committed s))"
  proof (cases "body_items req")
    case None
    with rows show ?thesis by simp
  next
    case (Some its)
    show ?thesis
    proof (cases "its = []")
      case True
      with Some rows show ?thesis by simp
    next
      case False
      with Some rows have rows': "point_items (committed s') =
          filter (\<lambda>a. point_id a \<noteq> ?i) (point_items (committed s)) @ pointItems_of e its ?i"
        by simp
      have "{a \<in> set (point_items (committed s')). point_id a = ?i} = set (pointItems_of e its ?i)"
        unfolding rows' by (auto dest: pointItems_of_point_id)
      moreover have "filter (\<lambda>a. point_id a \<noteq> ?i) (pointItems_of e its ?i) = []"
        by (auto simp: filter_empty_conv dest: pointItems_of_point_id)
      ultimately show ?thesis
        using Some False rows' by (simp add: item_id_pointItems_of)
    qed
  qed
  from raw oe items True show ?thesis by simp
qed


theorem update_replaces_items_witness:
  "update demo_env accept_all demo_state
       (no_change\<lparr>body_name := Some ''Eco'', body_items := Some ''4''\<rparr>) =
     (Response 200 (PointAndItemIds
        (point_row.extend (point1\<lparr>password := None\<rparr>)
           (point_json.fields (Some ''http://10.0.0.103:3333/uploads/images/old.png'')))
        [(''Oleo'', Some 4)]),
      demo_state\<lparr>committed := demo_db\<lparr>point_items := [\<lparr>item_id = Some 4, point_id = 1\<rparr>]\<rparr>\<rparr>)"
  using update_replaces_items [of demo_env accept_all demo_state
      "no_change\<lparr>body_name := Some ''Eco'', body_items := Some ''4''\<rparr>"
      "fst (update demo_env accept_all demo_state
         (no_change\<lparr>body_name := Some ''Eco'', body_items := Some ''4''\<rparr>))"
      "snd (update demo_env accept_all demo_state
         (no_change\<lparr>body_name := Some ''Eco'', body_items := Some ''4''\<rparr>))"]
  by (simp add: demo_defs run_defs items_of_point_def image_url_of_def template_def)

text \<open>
  Claim C2 says that every update call on an existing point that supplies a non-empty
  \<^verbatim>\<open>items\<close> leaves that point with exactly the supplied items. The handler misses
  the call that supplies \<^verbatim>\<open>items\<close> and nothing else: every column of the object of
  lines 209-219 is undefined, the update statement of lines 221-223 throws, and lines
  225-240 are never reached. On \<open>demo_state\<close> the call with \<^verbatim>\<open>items = "4"\<close> alone
  ends in that exception with its transaction left open, and the stored point keeps
  items 1, 2, 3; the same call with a name supplied answers 200 and leaves item 4.
\<close>

theorem update_items_only_throws:
  "update demo_env accept_all demo_state (no_change\<lparr>body_items := Some ''4''\<rparr>) =
     (Thrown EmptyUpdate, demo_state\<lparr>open_trx := [demo_db]\<rparr>) \<and>
   find (\<lambda>p. email p = body_originalemail no_change) (points (committed demo_state)) =
     Some point1 \<and>
   map item_id (filter (\<lambda>a. point_id a = id_col point1) (point_items (committed demo_state))) =
     [Some 1, Some 2, Some 3] \<and>
   parse_items demo_env ''4'' = [Some 4] \<and>
   point_items (committed (snd (update demo_env accept_all demo_state
       (no_change\<lparr>body_name := Some ''Eco'', body_items := Some ''4''\<rparr>)))) =
     [\<lparr>item_id = Some 4, point_id = 1\<rparr>]"
  by (simp add: demo_defs run_defs)



text \<open>
  Claim C7, as the handler has it. In an update call with an uploaded file: when the
  release of the stored file fails (the image column is NULL or the file is not in the
  upload directory), the call does not answer 200, commits nothing and removes no file;
  when the call answers 200, the stored file of the target point was in the upload
  directory and has been removed from it, and the image column of the target point, and
  of no other, holds the new file name; a call that does not answer 200 commits nothing.
  The file is removed where the handler reaches line 205 and stays removed: in every
  call that is not refused for its e-mail address and finds its target with a stored
  file, the upload directory afterwards is the one before without that file, whether the
  call then answers 200 or a later step of the transaction fails.
\<close>

theorem update_releases_old_image:
  assumes "update e r s req = (out, s')" and "file_filename req = Some filename"
  shows "(if \<exists>b. out = Response 200 b
          then \<exists>rawPoint old.
                 find (\<lambda>p. email p = body_originalemail req) (points (committed s)) = Some rawPoint \<and>
                 image_col rawPoint = Some old \<and> old \<in> files s \<and> files s' = files s - {old} \<and>
                 map image_col (points (committed s')) =
                   map (\<lambda>p. if id_col p = id_col rawPoint then Some filename else image_col p)
                     (points (committed s))
          else committed s' = committed s) \<and>
         (\<forall>rawPoint err.
            find (\<lambda>p. email p = body_originalemail req) (points (committed s)) = Some rawPoint \<and>
            release_image (files s) (file_filename req) rawPoint = Inl err \<longrightarrow>
            (\<forall>b. out \<noteq> Response 200 b) \<and> committed s' = committed s \<and> files s' = files s) \<and>
         (\<forall>originalemail rawPoint old.
            \<not> email_taken (committed s) req \<and> body_originalemail req = Some originalemail \<and>
            find (\<lambda>p. email p = Some originalemail) (points (committed s)) = Some rawPoint \<and>
            image_col rawPoint = Some old \<and> old \<in> files s \<longrightarrow>
            files s' = files s - {old})"
proof -
  have released: "files s' = files s - {old}"
    if a: "\<not> email_taken (committed s) req \<and> body_originalemail req = Some originalemail \<and>
            find (\<lambda>p. email p = Some originalemail) (points (committed s)) = Some rawPoint \<and>
            image_col rawPoint = Some old \<and> old \<in> files s" for originalemail rawPoint old
  proof -
    from a assms(2) have "release_image (files s) (file_filename req) rawPoint =
        Inr (files s - {old}, Some filename)"
      by (simp add: release_image_def)
    with a update_files [OF assms(1), of originalemail rawPoint "files s - {old}" "Some filename"]
    show ?thesis by simp
  qed
  have failed: "(\<forall>b. out \<noteq> Response 200 b) \<and> committed s' = committed s \<and> files s' = files s"
    if a: "find (\<lambda>p. email p = body_originalemail req) (points (committed s)) = Some rawPoint \<and>
            release_image (files s) (file_filename req) rawPoint = Inl err" for rawPoint err
  proof (cases "body_originalemail req")
    case None
    with assms(1) show ?thesis
      by (auto simp: update_def Let_def leave_open_def split: if_splits)
  next
    case (Some originalemail)
    with a update_release_failed [OF assms(1) Some, of rawPoint err] show ?thesis
      by (auto simp: duplicate_email_def)
  qed
  have succeeded: "if \<exists>b. out = Response 200 b
          then \<exists>rawPoint old.
                 find (\<lambda>p. email p = body_originalemail req) (points (committed s)) = Some rawPoint \<and>
                 image_col rawPoint = Some old \<and> old \<in> files s \<and> files s' = files s - {old} \<and>
                 map image_col (points (committed s')) =
                   map (\<lambda>p. if id_col p = id_col rawPoint then Some filename else image_col p)
                     (points (committed s))
          else committed s' = committed s"
  proof (cases "\<exists>b. out = Response 200 b")
    case False
    with update_cases [OF assms(1)] show ?thesis by auto
  next
    case True
    then obtain b where "update e r s req = (Response 200 b, s')"
      using assms by blast
    from update_points [OF this] obtain rawPoint fs image_new
      where raw: "find (\<lambda>p. email p = body_originalemail req) (points (committed s)) = Some rawPoint"
        and rel: "release_image (files s) (file_filename req) rawPoint = Inr (fs, image_new)"
        and fs: "files s' = fs"
        and pts: "points (committed s') =
             map (\<lambda>p. if id_col p = id_col rawPoint
                       then apply_patch (patch_of req (passwordHash_of e (body_password req))
                              image_new) p
                       else p) (points (committed s))"
      by blast
    from rel assms(2) obtain old where old: "image_col rawPoint = Some old" "old \<in> files s"
        "fs = files s - {old}" "image_new = Some filename"
      by (auto simp: release_image_def split: option.splits if_splits)
    have "map image_col (points (committed s')) =
                   map (\<lambda>p. if id_col p = id_col rawPoint then Some filename else image_col p)
                     (points (committed s))"
      unfolding pts using old(4)
      by (simp add: image_col_apply_patch set_image_patch_of or_keep_def)
    with raw old fs True show ?thesis by simp
  qed
  from failed succeeded released show ?thesis by blast
qed

text \<open>
  Three runs on the stored point: the call goes through; the stored file is missing, so
  the release fails and nothing changes; the database refuses the item rows after the
  release, so the file is gone and nothing is committed.
\<close>

theorem update_releases_old_image_witness:
  "file_filename (no_change\<lparr>file_filename := Some ''new.png''\<rparr>) = Some ''new.png'' \<and>
   update demo_env accept_all demo_state (no_change\<lparr>file_filename := Some ''new.png''\<rparr>) =
     (Response 200 (PointAndItemIds
        (point_row.extend (point1\<lparr>password := None, image_col := Some ''new.png''\<rparr>)
           (point_json.fields (Some ''http://10.0.0.103:3333/uploads/images/new.png'')))
        [(''Lampadas'', Some 1), (''Pilhas'', Some 2), (''Papeis'', Some 3)]),
      demo_state\<lparr>files := {''new.png''},
        committed := demo_db\<lparr>points := [point1\<lparr>image_col := Some ''new.png''\<rparr>]\<rparr>\<rparr>) \<and>
   update demo_env accept_all (demo_state\<lparr>files := {''new.png''}\<rparr>)
       (no_change\<lparr>file_filename := Some ''new.png''\<rparr>) =
     (Thrown ENOENT, demo_state\<lparr>files := {''new.png''}, open_trx := [demo_db]\<rparr>) \<and>
   files (snd (update demo_env foreign_keys demo_state
       (no_change\<lparr>file_filename := Some ''new.png'', body_items := Some ''9''\<rparr>))) =
     files demo_state - {''old.png''}"
  using update_releases_old_image [of demo_env accept_all demo_state
      "no_change\<lparr>file_filename := Some ''new.png''\<rparr>"
      "fst (update demo_env accept_all demo_state (no_change\<lparr>file_filename := Some ''new.png''\<rparr>))"
      "snd (update demo_env accept_all demo_state (no_change\<lparr>file_filename := Some ''new.png''\<rparr>))"
      "''new.png''"]
  by (simp add: demo_defs run_defs items_of_point_def image_url_of_def template_def)

text \<open>
  Claim C7 as written fails: the removal of the file is not part of the transaction. With
  foreign keys on \<^verbatim>\<open>point_items\<close>, an update with a new file and the unknown item 9
  removes \<^verbatim>\<open>old.png\<close> and then fails at the insert; nothing is committed, so the
  stored point still names \<^verbatim>\<open>old.png\<close>, which is gone, and \<^verbatim>\<open>new.png\<close> is
  referenced by no committed row.
\<close>

theorem update_failure_after_release:
  "update demo_env foreign_keys demo_state
     (no_change\<lparr>file_filename := Some ''new.png'', body_items := Some ''9''\<rparr>) =
     (Thrown QueryError,
      demo_state\<lparr>files := {''new.png''},
        open_trx := [demo_db\<lparr>points := [point1\<lparr>image_col := Some ''new.png''\<rparr>],
                            point_items := []\<rparr>]\<rparr>) \<and>
   points (committed demo_state) = [point1] \<and> image_col point1 = Some ''old.png'' \<and>
   ''old.png'' \<in> files demo_state"
  by (simp add: demo_defs run_defs)

end
